theory Spec2Isabelle
  imports Main
begin

section \<open>Values shared by the operations of pkg/k8s/operations.go\<close>

text \<open>
  A Go \<open>error\<close> value that is not nil. The operations distinguish three sorts only:
  an API status error that \<open>k8serror.IsNotFound\<close> recognises, a value built by
  \<open>fmt.Errorf\<close>, and every other error (transport, authorisation, process
  execution, file I/O). Each carries the text its \<open>Error()\<close> method returns.
  A nil error is \<open>None\<close> of \<open>error option\<close>.
\<close>

datatype error = NotFound string | ErrorString string | Failure string

fun message :: "error \<Rightarrow> string" where
  "message (NotFound m) = m"
| "message (ErrorString m) = m"
| "message (Failure m) = m"

fun IsNotFound :: "error option \<Rightarrow> bool" where
  "IsNotFound None = False"
| "IsNotFound (Some (NotFound m)) = True"
| "IsNotFound (Some (ErrorString m)) = False"
| "IsNotFound (Some (Failure m)) = False"

text \<open>
  How a call ends: it returns a value, it calls \<open>os.Exit\<close> with a status, it calls
  \<open>log.Fatal\<close> (the message is logged and the process exits with status 1), or it
  waits for ever on a channel that stays open and delivers nothing.
\<close>

datatype 'a outcome = Return 'a | Exit nat | Fatal string | Hang

text \<open>
  The lines the operations print through the colour printers of \<open>utils\<close>. The wording
  and colours are not modelled; each constructor stands for one print statement of the
  source and carries the values that statement interpolates.
\<close>

datatype console =
    PermissionAllowed string
  | PermissionDenied string
  | ReasonLine string
  | EvaluationErrorLine string
  | PromptExistingNs string
  | PromptNewOrExistingNs string
  | NoModeSelected
  | NsCheckFailed string
  | DelegateAlreadyPresent
  | ContinuingWith string
  | NoCreatePermission
  | Connecting
  | DelegateRunning

subsection \<open>The cluster, as the client set answers\<close>

datatype k8s_namespace = NamespaceObject string

record pod =
  pod_name :: string
  phase :: string

record ResourceAttributes =
  ra_Namespace :: string
  ra_Verb :: string
  ra_Group :: string
  ra_Resource :: string
  ra_Subresource :: string
  ra_Name :: string

record SubjectAccessReviewStatus =
  Allowed :: bool
  Reason :: string
  EvaluationError :: string

text \<open>
  The object of a watch event is a pod or something else (a status object, nil).
  A watch delivers the events of \<open>events\<close> in order; after the last one the server
  either closes the channel (\<open>closes\<close>) or the channel stays open and silent.
\<close>

datatype event_object = PodObject pod | OtherObject string

record watch_interface =
  events :: "event_object list"
  closes :: bool

text \<open>
  The calls the operations make on a client set. \<open>namespaces_get\<close> returns the pair
  of Go results as it is, because \<open>NsExists\<close> tests both; the other calls are
  dereferenced by the source whenever their error is nil, so their result is either an
  error or the object.
\<close>

record clientset =
  namespaces_get :: "string \<Rightarrow> k8s_namespace option \<times> error option"
  sar_create :: "ResourceAttributes \<Rightarrow> error + SubjectAccessReviewStatus"
  pods_list :: "string \<Rightarrow> string \<Rightarrow> error + pod list"
  pods_watch :: "string \<Rightarrow> string \<Rightarrow> error + watch_interface"

text \<open>
  \<open>ClientSet(kubeconfig)\<close> is a function of the package whose source is not among the
  files; the operations take it as a parameter. \<open>kubeconfig\<close> is a \<open>*string\<close>.
\<close>

type_synonym kube = "string option \<Rightarrow> error + clientset"

section \<open>NsExists\<close>

definition NsExists :: "kube \<Rightarrow> string \<Rightarrow> string option \<Rightarrow> bool \<times> error option" where
  "NsExists ClientSet namespace kubeconfig =
     (case ClientSet kubeconfig of
        Inl err \<Rightarrow> (False, Some err)
      | Inr cs \<Rightarrow>
          (case namespaces_get cs namespace of (ns, err) \<Rightarrow>
             if IsNotFound err then (False, None)
             else if err = None \<and> ns \<noteq> None then (True, None)
             else (False, err)))"

section \<open>CheckSAPermissions\<close>

record CheckSAPermissionsParams =
  Verb :: string
  Resource :: string
  Print :: bool
  Namespace :: string

text \<open>
  The result is the pair the Go function returns, with the lines it printed. The fields
  \<open>Group\<close>, \<open>Subresource\<close> and \<open>ResourceName\<close> of the options are never assigned and
  keep their zero value, the empty string.
\<close>

definition CheckSAPermissions ::
  "kube \<Rightarrow> CheckSAPermissionsParams \<Rightarrow> string option \<Rightarrow> (bool \<times> error option) \<times> console list" where
  "CheckSAPermissions ClientSet params kubeconfig =
     (case ClientSet kubeconfig of
        Inl err \<Rightarrow> ((False, Some err), [])
      | Inr client \<Rightarrow>
          (case sar_create client
                  \<lparr>ra_Namespace = Namespace params, ra_Verb = Verb params, ra_Group = [],
                   ra_Resource = Resource params, ra_Subresource = [], ra_Name = []\<rparr> of
             Inl err \<Rightarrow> ((False, Some err), [])
           | Inr status \<Rightarrow>
               ((Allowed status, None),
                (if Allowed status
                 then (if Print params then [PermissionAllowed (Resource params)] else [])
                 else (if Print params then [PermissionDenied (Resource params)] else [])
                      @ (if length (Reason status) > 0 then [ReasonLine (Reason status)] else [])
                      @ (if length (EvaluationError status) > 0
                         then [EvaluationErrorLine (EvaluationError status)] else [])))))"

section \<open>podExists\<close>

record podExistsParams =
  pe_Namespace :: string
  pe_Label :: string

definition podExists :: "kube \<Rightarrow> podExistsParams \<Rightarrow> string option \<Rightarrow> bool outcome" where
  "podExists ClientSet params kubeconfig =
     (case ClientSet kubeconfig of
        Inl err \<Rightarrow> Fatal (message err)
      | Inr cs \<Rightarrow>
          (case pods_list cs (pe_Namespace params) (pe_Label params) of
             Inl err \<Rightarrow> Fatal (message err)
           | Inr items \<Rightarrow> if length items \<ge> 1 then Return True else Return False))"

section \<open>ValidNs\<close>

text \<open>
  \<open>fmt.Scanln(&namespace)\<close> is modelled by what it stores: standard input is the list of
  the values successive calls store in the variable (the empty string for an empty line),
  and once the list is used up (end of input) every call leaves the variable empty. How
  \<open>fmt\<close> splits a line into tokens is not modelled.
\<close>

fun Scanln :: "string list \<Rightarrow> string" where
  "Scanln [] = []"
| "Scanln (l # ls) = l"

text \<open>
  One pass from the label \<open>start\<close> to the end of the function, for the value the prompt
  read. The second component is \<open>None\<close> where the pass ends in \<open>goto start\<close>, and how
  the function ends otherwise. \<open>utils.DefaultNs\<close> is a constant of another package and is a
  parameter here.
\<close>

definition ValidNs_cycle ::
  "kube \<Rightarrow> string \<Rightarrow> string \<Rightarrow> string \<Rightarrow> string option \<Rightarrow> string
     \<Rightarrow> console list \<times> (string \<times> bool) outcome option" where
  "ValidNs_cycle ClientSet DefaultNs mode label kubeconfig scanned =
     (case (if mode = ''namespace'' then Some (PromptExistingNs DefaultNs)
            else if mode = ''cluster'' then Some (PromptNewOrExistingNs DefaultNs)
            else None) of
        None \<Rightarrow> ([NoModeSelected], Some (Exit 1))
      | Some prompt \<Rightarrow>
          (let namespace = (if scanned = [] then DefaultNs else scanned) in
           case NsExists ClientSet namespace kubeconfig of
             (ok, Some err) \<Rightarrow> ([prompt, NsCheckFailed (message err)], Some (Exit 1))
           | (ok, None) \<Rightarrow>
               if ok then
                 (case podExists ClientSet \<lparr>pe_Namespace = namespace, pe_Label = label\<rparr> kubeconfig of
                    Return found \<Rightarrow>
                      if found then ([prompt, DelegateAlreadyPresent], None)
                      else ([prompt, ContinuingWith namespace], Some (Return (namespace, True)))
                  | Exit c \<Rightarrow> ([prompt], Some (Exit c))
                  | Fatal m \<Rightarrow> ([prompt], Some (Fatal m))
                  | Hang \<Rightarrow> ([prompt], Some Hang))
               else
                 (case CheckSAPermissions ClientSet
                         \<lparr>Verb = ''create'', Resource = ''namespace'', Print = False,
                          Namespace = namespace\<rparr> kubeconfig of
                    ((val, _), printed) \<Rightarrow>
                      if \<not> val then (prompt # printed @ [NoCreatePermission], None)
                      else (prompt # printed, Some (Return (namespace, False))))))"

text \<open>
  The function itself: passes are repeated while they end in \<open>goto start\<close>. The cluster
  answers the same way during the whole call. The result is \<open>None\<close> when the passes
  never end; otherwise it is everything printed and how the call ended, where
  \<open>Return (namespace, nsExists)\<close> is the pair of results.
\<close>

partial_function (option) ValidNs_from ::
  "kube \<Rightarrow> string \<Rightarrow> string \<Rightarrow> string \<Rightarrow> string option \<Rightarrow> string list \<Rightarrow> console list
     \<Rightarrow> (console list \<times> (string \<times> bool) outcome) option" where
  "ValidNs_from ClientSet DefaultNs mode label kubeconfig stdin out =
     (case ValidNs_cycle ClientSet DefaultNs mode label kubeconfig (Scanln stdin) of
        (printed, None) \<Rightarrow>
          ValidNs_from ClientSet DefaultNs mode label kubeconfig (tl stdin) (out @ printed)
      | (printed, Some r) \<Rightarrow> Some (out @ printed, r))"

definition ValidNs ::
  "kube \<Rightarrow> string \<Rightarrow> string \<Rightarrow> string \<Rightarrow> string option \<Rightarrow> string list
     \<Rightarrow> (console list \<times> (string \<times> bool) outcome) option" where
  "ValidNs ClientSet DefaultNs mode label kubeconfig stdin =
     ValidNs_from ClientSet DefaultNs mode label kubeconfig stdin []"

section \<open>WatchPod\<close>

record WatchPodParams =
  wp_Namespace :: string
  wp_Label :: string

text \<open>
  The loop over \<open>watch.ResultChan()\<close>. The result is what was printed, whether
  \<open>watch.Stop()\<close> was called, and how the function ends.
\<close>

fun watch_events :: "event_object list \<Rightarrow> bool \<Rightarrow> console list \<Rightarrow> console list \<times> bool \<times> unit outcome" where
  "watch_events [] closed out = (out, False, if closed then Return () else Hang)"
| "watch_events (OtherObject x # rest) closed out = (out, False, Fatal ''unexpected type'')"
| "watch_events (PodObject p # rest) closed out =
     (if phase p = ''Running'' then (out @ [Connecting, DelegateRunning], True, Return ())
      else watch_events rest closed (out @ [Connecting]))"

definition WatchPod :: "kube \<Rightarrow> WatchPodParams \<Rightarrow> string option \<Rightarrow> console list \<times> bool \<times> unit outcome" where
  "WatchPod ClientSet params kubeconfig =
     (case ClientSet kubeconfig of
        Inl err \<Rightarrow> ([], False, Fatal (message err))
      | Inr cs \<Rightarrow>
          (case pods_watch cs (wp_Namespace params) (wp_Label params) of
             Inl err \<Rightarrow> ([], False, Fatal (message err))
           | Inr watch \<Rightarrow> watch_events (events watch) (closes watch) []))"

section \<open>fmt.Errorf with no operands\<close>

text \<open>
  \<open>ApplyYaml\<close> calls \<open>fmt.Errorf(errStr)\<close>: the captured text is the format and there
  are no operands. This section follows the part of Go's standard library that such a
  call runs (package \<open>fmt\<close>, file print.go: \<open>tooLarge\<close>, \<open>parsenum\<close>,
  \<open>parseArgNumber\<close>, \<open>argNumber\<close> and \<open>doPrintf\<close>), with the operand list empty.
  A Go string is a sequence of bytes, as \<open>string\<close> is here. Indices are read only below
  the length of the format, as in the Go code.
\<close>

text \<open>\<open>tooLarge\<close> and \<open>parsenum\<close>: a decimal number in \<open>s\<close> from \<open>start\<close>, read below \<open>endi\<close>.\<close>

definition tooLarge :: "nat \<Rightarrow> bool" where
  "tooLarge x = (x > 1000000)"

function parsenum_from :: "string \<Rightarrow> nat \<Rightarrow> nat \<Rightarrow> nat \<Rightarrow> bool \<Rightarrow> nat \<times> bool \<times> nat" where
  "parsenum_from s newi endi num isnum =
     (if newi < endi \<and> (48::nat) \<le> of_char (s ! newi) \<and> of_char (s ! newi) \<le> (57::nat) then
        (if tooLarge num then (0, False, endi)
         else parsenum_from s (newi + 1) endi (num * 10 + (of_char (s ! newi) - 48)) True)
      else (num, isnum, newi))"
  by pat_completeness auto
termination
  by (relation "measure (\<lambda>(s, newi, endi, num, isnum). endi - newi)") auto

definition parsenum :: "string \<Rightarrow> nat \<Rightarrow> nat \<Rightarrow> nat \<times> bool \<times> nat" where
  "parsenum s start endi =
     (if start \<ge> endi then (0, False, endi) else parsenum_from s start endi 0 False)"

text \<open>\<open>parseArgNumber\<close>: an argument index \<open>[n]\<close> at the head of the string; its loop looks for the closing bracket.\<close>

function find_bracket :: "string \<Rightarrow> nat \<Rightarrow> int \<times> nat \<times> bool" where
  "find_bracket format i =
     (if i < length format then
        (if format ! i = CHR '']'' then
           (case parsenum format 1 i of (width, ok, newi) \<Rightarrow>
              if \<not> ok \<or> newi \<noteq> i then (0, i + 1, False)
              else (int width - 1, i + 1, True))
         else find_bracket format (i + 1))
      else (0, 1, False))"
  by pat_completeness auto
termination
  by (relation "measure (\<lambda>(format, i). length format - i)") auto

definition parseArgNumber :: "string \<Rightarrow> int \<times> nat \<times> bool" where
  "parseArgNumber format =
     (if length format < 3 then (0, 1, False) else find_bracket format 1)"

text \<open>\<open>argNumber\<close>; the last component is the field \<open>goodArgNum\<close> of the printer afterwards.\<close>

definition argNumber :: "nat \<Rightarrow> string \<Rightarrow> nat \<Rightarrow> nat \<Rightarrow> bool \<Rightarrow> nat \<times> nat \<times> bool \<times> bool" where
  "argNumber argNum format i numArgs goodArgNum =
     (if length format \<le> i \<or> format ! i \<noteq> CHR ''['' then (argNum, i, False, goodArgNum)
      else (case parseArgNumber (drop i format) of (index, wid, ok) \<Rightarrow>
              if ok \<and> 0 \<le> index \<and> index < int numArgs then (nat index, i + wid, True, goodArgNum)
              else (argNum, i + wid, ok, False)))"

text \<open>The two inner loops of \<open>doPrintf\<close>: over literal text up to a percent sign, and over flags.\<close>

function skip_literal :: "string \<Rightarrow> nat \<Rightarrow> nat" where
  "skip_literal format i =
     (if i < length format \<and> format ! i \<noteq> CHR ''%'' then skip_literal format (i + 1) else i)"
  by pat_completeness auto
termination
  by (relation "measure (\<lambda>(format, i). length format - i)") auto

function skip_flags :: "string \<Rightarrow> nat \<Rightarrow> nat" where
  "skip_flags format i =
     (if i < length format \<and> format ! i \<in> {CHR ''#'', CHR ''0'', CHR ''+'', CHR ''-'', CHR '' ''}
      then skip_flags format (i + 1) else i)"
  by pat_completeness auto
termination
  by (relation "measure (\<lambda>(format, i). length format - i)") auto

definition RuneError :: string where
  "RuneError = [CHR 0xEF, CHR 0xBF, CHR 0xBD]"

text \<open>
  \<open>utf8.DecodeRuneInString\<close> followed by \<open>writeRune\<close>, for the verb: the bytes written
  and the number of bytes read. A well-formed sequence is written back as it is; anything
  else reads one byte and writes the replacement character. \<open>rune_len\<close>, \<open>accept_lo\<close>
  and \<open>accept_hi\<close> are the tables \<open>first\<close> and \<open>acceptRanges\<close> for a leading byte
  between 0xC2 and 0xF4.
\<close>

definition rune_len :: "nat \<Rightarrow> nat" where
  "rune_len s0 = (if s0 < 0xE0 then 2 else if s0 < 0xF0 then 3 else 4)"

definition accept_lo :: "nat \<Rightarrow> nat" where
  "accept_lo s0 = (if s0 = 0xE0 then 0xA0 else if s0 = 0xF0 then 0x90 else 0x80)"

definition accept_hi :: "nat \<Rightarrow> nat" where
  "accept_hi s0 = (if s0 = 0xED then 0x9F else if s0 = 0xF4 then 0x8F else 0xBF)"

definition continuation :: "char \<Rightarrow> bool" where
  "continuation c = ((0x80::nat) \<le> of_char c \<and> of_char c \<le> (0xBF::nat))"

definition decode_verb :: "string \<Rightarrow> string \<times> nat" where
  "decode_verb s =
     (let s0 = (of_char (s ! 0) :: nat) in
      if s0 < 0x80 then ([s ! 0], 1)
      else if s0 < 0xC2 \<or> 0xF4 < s0 then (RuneError, 1)
      else if length s < rune_len s0 then (RuneError, 1)
      else if of_char (s ! 1) < accept_lo s0 \<or> accept_hi s0 < of_char (s ! 1) then (RuneError, 1)
      else if rune_len s0 \<le> 2 then (take 2 s, 2)
      else if \<not> continuation (s ! 2) then (RuneError, 1)
      else if rune_len s0 \<le> 3 then (take 3 s, 3)
      else if \<not> continuation (s ! 3) then (RuneError, 1)
      else (take 4 s, 4))"

text \<open>
  One directive, from the index after its percent sign: the parts of the loop body
  headed "Do we have width?" and "Do we have precision?", and the whole of it. Each gives
  the text written, the index reached, \<open>afterIndex\<close> and \<open>goodArgNum\<close>; \<open>directive\<close>
  gives the text written, the index reached and whether the loop is left (no verb).
\<close>

definition width_stage :: "string \<Rightarrow> nat \<Rightarrow> bool \<Rightarrow> bool \<Rightarrow> string \<times> nat \<times> bool \<times> bool" where
  "width_stage format i afterIndex goodArgNum =
     (if i < length format \<and> format ! i = CHR ''*'' then (''%!(BADWIDTH)'', i + 1, False, goodArgNum)
      else (case parsenum format i (length format) of (wid, widPresent, i') \<Rightarrow>
              ([], i', afterIndex, if afterIndex \<and> widPresent then False else goodArgNum)))"

definition precision_stage :: "string \<Rightarrow> nat \<Rightarrow> bool \<Rightarrow> bool \<Rightarrow> string \<times> nat \<times> bool \<times> bool" where
  "precision_stage format i afterIndex goodArgNum =
     (if i + 1 < length format \<and> format ! i = CHR ''.'' then
        (case argNumber 0 format (i + 1) 0 (if afterIndex then False else goodArgNum) of
           (argNum, j, afterIndex', goodArgNum') \<Rightarrow>
             if j < length format \<and> format ! j = CHR ''*'' then (''%!(BADPREC)'', j + 1, False, goodArgNum')
             else (case parsenum format j (length format) of (prec, precPresent, j') \<Rightarrow>
                     ([], j', afterIndex', goodArgNum')))
      else ([], i, afterIndex, goodArgNum))"

definition directive :: "string \<Rightarrow> nat \<Rightarrow> string \<times> nat \<times> bool" where
  "directive format i =
     (case argNumber 0 format (skip_flags format i) 0 True of (argNum, i1, afterIndex1, good1) \<Rightarrow>
      case width_stage format i1 afterIndex1 good1 of (width_out, i2, afterIndex2, good2) \<Rightarrow>
      case precision_stage format i2 afterIndex2 good2 of (prec_out, i3, afterIndex3, good3) \<Rightarrow>
      case (if \<not> afterIndex3 then argNumber 0 format i3 0 good3 else (0, i3, afterIndex3, good3)) of
        (argNum', i4, afterIndex4, good4) \<Rightarrow>
      if i4 \<ge> length format then (width_out @ prec_out @ ''%!(NOVERB)'', i4, True)
      else (case decode_verb (drop i4 format) of (verb, vsize) \<Rightarrow>
              (width_out @ prec_out @
                 (if verb = ''%'' then ''%''
                  else if \<not> good4 then ''%!'' @ verb @ ''(BADINDEX)''
                  else ''%!'' @ verb @ ''(MISSING)''),
               i4 + vsize, False)))"

declare parsenum_from.simps [simp del]
declare find_bracket.simps [simp del]
declare skip_literal.simps [simp del]
declare skip_flags.simps [simp del]

text \<open>Every stage of a directive moves forward in the format; \<open>doPrintf\<close> ends for that reason.\<close>

lemma parsenum_from_bounds:
  "newi \<le> endi \<Longrightarrow> parsenum_from s newi endi num isnum = (n, b, j) \<Longrightarrow> newi \<le> j \<and> j \<le> endi"
proof (induction s newi endi num isnum rule: parsenum_from.induct)
  case (1 s newi endi num isnum)
  show ?case
  proof (cases "newi < endi \<and> (48::nat) \<le> of_char (s ! newi) \<and> of_char (s ! newi) \<le> (57::nat)")
    case True
    note step = True
    show ?thesis
    proof (cases "tooLarge num")
      case True
      with step "1.prems" show ?thesis by (simp add: parsenum_from.simps [of s newi])
    next
      case False
      with step "1.prems" have "parsenum_from s (newi + 1) endi (num * 10 + (of_char (s ! newi) - 48)) True = (n, b, j)"
        by (simp add: parsenum_from.simps [of s newi])
      with "1.IH" [OF step False] step show ?thesis by force
    qed
  next
    case False
    with "1.prems" show ?thesis by (auto simp: parsenum_from.simps [of s newi])
  qed
qed

lemma parsenum_bounds:
  "start \<le> endi \<Longrightarrow> parsenum s start endi = (n, b, j) \<Longrightarrow> start \<le> j \<and> j \<le> endi"
  unfolding parsenum_def using parsenum_from_bounds [of start endi s 0 False n b j]
  by (auto split: if_splits)

lemma find_bracket_wid:
  "find_bracket format i = (index, wid, ok) \<Longrightarrow> 1 \<le> wid \<and> (1 \<le> length format \<longrightarrow> wid \<le> length format)"
proof (induction format i rule: find_bracket.induct)
  case (1 format i)
  then show ?case
    by (auto simp: find_bracket.simps [of format i] split: if_splits prod.splits)
qed

lemma argNumber_bounds:
  "i \<le> length format \<Longrightarrow> argNumber argNum format i numArgs good = (a, j, found, good')
     \<Longrightarrow> i \<le> j \<and> j \<le> length format"
  unfolding argNumber_def parseArgNumber_def
  by (auto split: if_splits prod.splits dest!: find_bracket_wid)

lemma skip_flags_bounds: "i \<le> length format \<Longrightarrow> i \<le> skip_flags format i \<and> skip_flags format i \<le> length format"
proof (induction format i rule: skip_flags.induct)
  case (1 format i)
  show ?case
  proof (cases "i < length format \<and> format ! i \<in> {CHR ''#'', CHR ''0'', CHR ''+'', CHR ''-'', CHR '' ''}")
    case True
    then have "skip_flags format i = skip_flags format (i + 1)"
      by (subst skip_flags.simps) simp
    with "1.IH" [OF True] True show ?thesis by simp
  next
    case False
    then have "skip_flags format i = i"
      by (subst skip_flags.simps) (rule if_not_P)
    with "1.prems" show ?thesis by simp
  qed
qed

lemma skip_literal_bounds: "i \<le> length format \<Longrightarrow> i \<le> skip_literal format i \<and> skip_literal format i \<le> length format"
proof (induction format i rule: skip_literal.induct)
  case (1 format i)
  show ?case
  proof (cases "i < length format \<and> format ! i \<noteq> CHR ''%''")
    case True
    then have "skip_literal format i = skip_literal format (i + 1)"
      by (subst skip_literal.simps) simp
    with "1.IH" [OF True] True show ?thesis by simp
  next
    case False
    then have "skip_literal format i = i"
      by (subst skip_literal.simps) (rule if_not_P)
    with "1.prems" show ?thesis by simp
  qed
qed

lemma width_stage_bounds:
  "i \<le> length format \<Longrightarrow> width_stage format i ai g = (w, j, ai', g') \<Longrightarrow> i \<le> j \<and> j \<le> length format"
  unfolding width_stage_def
  by (auto split: if_splits prod.splits dest: parsenum_bounds)

lemma precision_stage_bounds:
  assumes "i \<le> length format" and "precision_stage format i ai g = (w, j, ai', g')"
  shows "i \<le> j \<and> j \<le> length format"
proof (cases "i + 1 < length format \<and> format ! i = CHR ''.''")
  case False
  then have "precision_stage format i ai g = ([], i, ai, g)"
    unfolding precision_stage_def by (rule if_not_P)
  with assms show ?thesis by simp
next
  case True
  obtain a k ai1 g1 where
    an: "argNumber 0 format (i + 1) 0 (if ai then False else g) = (a, k, ai1, g1)"
    by (metis prod_cases4)
  from True have "i + 1 \<le> length format" by simp
  from argNumber_bounds [OF this an] have k: "i + 1 \<le> k" "k \<le> length format" by simp_all
  show ?thesis
  proof (cases "k < length format \<and> format ! k = CHR ''*''")
    case star: True
    with True an assms(2) have "j = k + 1"
      unfolding precision_stage_def by simp
    with k star show ?thesis by simp
  next
    case nostar: False
    obtain p pp j' where pn: "parsenum format k (length format) = (p, pp, j')"
      by (metis prod_cases3)
    from nostar True an pn assms(2) have "j = j'"
      unfolding precision_stage_def by auto
    with parsenum_bounds [OF k(2) pn] k show ?thesis by simp
  qed
qed

lemma decode_verb_size: "1 \<le> snd (decode_verb s)"
  unfolding decode_verb_def Let_def by simp

lemma directive_advances:
  assumes "i \<le> length format" and "directive format i = (written, i', stop)"
  shows "i \<le> i'"
proof -
  obtain a1 i1 ai1 g1 where s1: "argNumber 0 format (skip_flags format i) 0 True = (a1, i1, ai1, g1)"
    by (metis prod_cases4)
  obtain w2 i2 ai2 g2 where s2: "width_stage format i1 ai1 g1 = (w2, i2, ai2, g2)"
    by (metis prod_cases4)
  obtain w3 i3 ai3 g3 where s3: "precision_stage format i2 ai2 g2 = (w3, i3, ai3, g3)"
    by (metis prod_cases4)
  obtain a4 i4 ai4 g4 where
    s4: "(if \<not> ai3 then argNumber 0 format i3 0 g3 else (0, i3, ai3, g3)) = (a4, i4, ai4, g4)"
    by (metis prod_cases4)
  have b0: "i \<le> skip_flags format i" "skip_flags format i \<le> length format"
    using skip_flags_bounds [OF assms(1)] by simp_all
  have b1: "skip_flags format i \<le> i1" "i1 \<le> length format"
    using argNumber_bounds [OF b0(2) s1] by simp_all
  have b2: "i1 \<le> i2" "i2 \<le> length format"
    using width_stage_bounds [OF b1(2) s2] by simp_all
  have b3: "i2 \<le> i3" "i3 \<le> length format"
    using precision_stage_bounds [OF b2(2) s3] by simp_all
  have b4: "i3 \<le> i4"
  proof (cases ai3)
    case True
    with s4 show ?thesis by simp
  next
    case False
    with s4 have "argNumber 0 format i3 0 g3 = (a4, i4, ai4, g4)" by simp
    from argNumber_bounds [OF b3(2) this] show ?thesis by simp
  qed
  have "directive format i =
          (if i4 \<ge> length format then (w2 @ w3 @ ''%!(NOVERB)'', i4, True)
           else (case decode_verb (drop i4 format) of (verb, vsize) \<Rightarrow>
              (w2 @ w3 @
                 (if verb = ''%'' then ''%''
                  else if \<not> g4 then ''%!'' @ verb @ ''(BADINDEX)''
                  else ''%!'' @ verb @ ''(MISSING)''),
               i4 + vsize, False)))"
    unfolding directive_def s1 prod.case s2 s3 s4 ..
  with assms(2) have "i' = i4 \<or> i' = i4 + snd (decode_verb (drop i4 format))"
    by (cases "decode_verb (drop i4 format)") (simp split: if_splits)
  then have "i4 \<le> i'" by auto
  with b0 b1 b2 b3 b4 show ?thesis by linarith
qed

text \<open>
  The loop \<open>formatLoop\<close>, from index \<open>i\<close> with \<open>buf\<close> written so far. With no
  operand the fast path for simple verbs is never taken and \<open>argNum\<close> stays 0.
\<close>

function doPrintf :: "string \<Rightarrow> nat \<Rightarrow> string \<Rightarrow> string" where
  "doPrintf format i buf =
     (if i < length format then
        (let j = skip_literal format i;
             buf1 = buf @ take (j - i) (drop i format)
         in if j \<ge> length format then buf1
            else (case directive format (j + 1) of (written, i', stop) \<Rightarrow>
                    if stop then buf1 @ written else doPrintf format i' (buf1 @ written)))
      else buf)"
  by pat_completeness auto
termination
proof (relation "measure (\<lambda>(format, i, buf). length format - i)", goal_cases)
  case 1
  show ?case by simp
next
  case (2 format i buf x xa xb y xc ya)
  have "i \<le> x" using skip_literal_bounds [of i format] 2 by simp
  moreover have "directive format (x + 1) = (xb, xc, ya)" using 2 by simp
  then have "x + 1 \<le> xc"
    using directive_advances [of "x + 1" format xb xc ya] 2 by simp
  ultimately show ?case using 2 by simp
qed

declare doPrintf.simps [simp del]

definition Sprintf :: "string \<Rightarrow> string" where
  "Sprintf format = doPrintf format 0 []"

text \<open>\<open>fmt.Errorf(format)\<close>: with no operand nothing is wrapped, the error is \<open>errors.New\<close> of the text.\<close>

definition Errorf :: "string \<Rightarrow> error" where
  "Errorf format = ErrorString (Sprintf format)"

section \<open>ApplyYaml\<close>

record ApplyYamlPrams =
  Token :: string
  Endpoint :: string
  YamlPath :: string

text \<open>
  An HTTP response: its status code, and what \<open>ioutil.ReadAll\<close> of its body gives.
\<close>

record http_response =
  statusCode :: nat
  body :: "error + string"

text \<open>What \<open>cmd.Run()\<close> gives: its error and the two captured buffers.\<close>

record run_result =
  run_err :: "error option"
  run_stdout :: string
  run_stderr :: string

text \<open>
  The machine the program runs on. \<open>NewRequest url\<close> is the error of
  \<open>http.NewRequest("GET", url, nil)\<close>; \<open>Do url\<close> is the answer to the GET;
  \<open>WriteFile name data fs\<close> is \<open>None\<close> when the write succeeds (the file then
  holds exactly \<open>data\<close>) and otherwise the error with the files the failed write leaves;
  \<open>Run args fs\<close> runs the command on the files as they are.
\<close>

record host =
  NewRequest :: "string \<Rightarrow> error option"
  Do :: "string \<Rightarrow> error + http_response"
  WriteFile :: "string \<Rightarrow> string \<Rightarrow> (string \<rightharpoonup> string) \<Rightarrow> (error \<times> (string \<rightharpoonup> string)) option"
  Run :: "string list \<Rightarrow> (string \<rightharpoonup> string) \<Rightarrow> run_result"

text \<open>What changes: the files, the GET requests sent, and the commands run, in order.\<close>

record machine =
  files :: "string \<rightharpoonup> string"
  requests :: "string list"
  commands :: "string list list"

text \<open>
  The result is the pair \<open>(output, err)\<close> of the Go function and the machine afterwards.
  \<open>fmt.Sprintf("%s/%s/%s.yaml", ...)\<close> on three strings is their concatenation with the
  separators.
\<close>

definition ApplyYaml ::
  "host \<Rightarrow> ApplyYamlPrams \<Rightarrow> string \<Rightarrow> bool \<Rightarrow> machine \<Rightarrow> (string \<times> error option) \<times> machine" where
  "ApplyYaml h params kubeconfig isLocal m =
     (case (if \<not> isLocal then
              (let path = Endpoint params @ ''/'' @ YamlPath params @ ''/'' @ Token params @ ''.yaml'' in
               case NewRequest h path of
                 Some err \<Rightarrow> Inl (err, m)
               | None \<Rightarrow>
                   (let m1 = m\<lparr>requests := requests m @ [path]\<rparr> in
                    case Do h path of
                      Inl err \<Rightarrow> Inl (err, m1)
                    | Inr resp \<Rightarrow>
                        (case body resp of
                           Inl err \<Rightarrow> Inl (err, m1)
                         | Inr resp_body \<Rightarrow>
                             (case WriteFile h ''chaos-delegate-manifest.yaml'' resp_body (files m1) of
                                Some (err, fs) \<Rightarrow> Inl (err, m1\<lparr>files := fs\<rparr>)
                              | None \<Rightarrow>
                                  Inr (''chaos-delegate-manifest.yaml'',
                                       m1\<lparr>files := (files m1)(''chaos-delegate-manifest.yaml'' \<mapsto> resp_body)\<rparr>)))))
            else Inr (YamlPath params, m)) of
        Inl (err, m') \<Rightarrow> (([], Some err), m')
      | Inr (path, m') \<Rightarrow>
          (let args = (if kubeconfig \<noteq> [] then [''kubectl'', ''apply'', ''-f'', path] @ [''--kubeconfig'', kubeconfig]
                       else [''kubectl'', ''apply'', ''-f'', path]);
               r = Run h args (files m')
           in ((case run_err r of
                  Some err \<Rightarrow> (if run_stderr r \<noteq> [] then ([], Some (Errorf (run_stderr r))) else ([], Some err))
                | None \<Rightarrow> (run_stdout r, None)),
               m'\<lparr>commands := commands m' @ [args]\<rparr>)))"

section \<open>Two clusters and a machine to run the operations on\<close>

text \<open>
  A cluster where namespace \<open>litmus\<close> holds a delegate pod that has failed, namespace
  \<open>chaos\<close> is empty, reading namespace \<open>flaky\<close> times out, and nothing else exists;
  namespaces may be created, except one called \<open>locked\<close> (denied with a reason) and one
  called \<open>unknown\<close> (the review itself fails).
\<close>

definition busy_clientset :: clientset where
  "busy_clientset =
     \<lparr>namespaces_get = (\<lambda>n.
          if n = ''litmus'' \<or> n = ''chaos'' then (Some (NamespaceObject n), None)
          else if n = ''flaky'' then (None, Some (Failure ''i/o timeout''))
          else (None, Some (NotFound (''namespaces '' @ n @ '' not found'')))),
      sar_create = (\<lambda>ra.
          if ra_Namespace ra = ''locked''
          then Inr \<lparr>Allowed = False, Reason = ''RBAC: no rule matched'', EvaluationError = ''webhook down''\<rparr>
          else if ra_Namespace ra = ''unknown'' then Inl (Failure ''connection refused'')
          else Inr \<lparr>Allowed = True, Reason = [], EvaluationError = []\<rparr>),
      pods_list = (\<lambda>n l.
          if n = ''flaky'' then Inl (Failure ''i/o timeout'')
          else if n = ''litmus'' \<and> l = ''app=chaos-delegate''
          then Inr [\<lparr>pod_name = ''subscriber'', phase = ''Failed''\<rparr>]
          else Inr []),
      pods_watch = (\<lambda>n l.
          if n = ''litmus''
          then Inr \<lparr>events = [PodObject \<lparr>pod_name = ''subscriber'', phase = ''Pending''\<rparr>,
                              PodObject \<lparr>pod_name = ''subscriber'', phase = ''Running''\<rparr>,
                              OtherObject ''Status''],
                    closes = False\<rparr>
          else if n = ''chaos''
          then Inr \<lparr>events = [PodObject \<lparr>pod_name = ''subscriber'', phase = ''Pending''\<rparr>],
                    closes = True\<rparr>
          else if n = ''odd''
          then Inr \<lparr>events = [PodObject \<lparr>pod_name = ''subscriber'', phase = ''Pending''\<rparr>,
                              OtherObject ''Status''],
                    closes = True\<rparr>
          else Inl (Failure ''i/o timeout''))\<rparr>"

text \<open>The client set cannot be built from the configuration file \<open>/none\<close>.\<close>

definition busy_cluster :: kube where
  "busy_cluster kubeconfig =
     (if kubeconfig = Some ''/none'' then Inl (Failure ''stat /none: no such file or directory'')
      else Inr busy_clientset)"

text \<open>A cluster with nothing in it, where everything may be created.\<close>

definition fresh_clientset :: clientset where
  "fresh_clientset =
     \<lparr>namespaces_get = (\<lambda>n. (None, Some (NotFound (''namespaces '' @ n @ '' not found'')))),
      sar_create = (\<lambda>ra. Inr \<lparr>Allowed = True, Reason = [], EvaluationError = []\<rparr>),
      pods_list = (\<lambda>n l. Inr []),
      pods_watch = (\<lambda>n l. Inr \<lparr>events = [], closes = False\<rparr>)\<rparr>"

definition fresh_cluster :: kube where
  "fresh_cluster kubeconfig = Inr fresh_clientset"

text \<open>
  A machine whose manifest server answers three addresses (a manifest, a body that breaks
  off, and an error page with status 404 for any other path), whose disk is writable
  unless the file \<open>.readonly\<close> exists, and whose \<open>kubectl\<close> answers by the content of
  the file it is given.
\<close>

definition lab_host :: host where
  "lab_host =
     \<lparr>NewRequest = (\<lambda>url. if take 1 url = '':'' then Some (Failure ''parse: missing protocol scheme'') else None),
      Do = (\<lambda>url.
         if url = ''https://cc.example/manifests/tok123.yaml''
         then Inr \<lparr>statusCode = 200, body = Inr ''kind: Deployment''\<rparr>
         else if url = ''https://cc.example/manifests/cut.yaml''
         then Inr \<lparr>statusCode = 200, body = Inl (Failure ''unexpected EOF'')\<rparr>
         else if take 18 url = ''https://cc.example''
         then Inr \<lparr>statusCode = 404, body = Inr ''404 page not found''\<rparr>
         else Inl (Failure ''dial tcp: no such host'')),
      WriteFile = (\<lambda>name data fs.
         if fs ''.readonly'' \<noteq> None then Some (Failure ''open: read-only file system'', fs) else None),
      Run = (\<lambda>args fs.
         if length args < 4 then \<lparr>run_err = Some (Failure ''exit status 1''), run_stdout = [], run_stderr = ''error: must specify one of -f and -k''\<rparr>
         else if args ! 0 \<noteq> ''kubectl'' then \<lparr>run_err = Some (Failure ''exec: executable file not found in $PATH''), run_stdout = [], run_stderr = []\<rparr>
         else (case fs (args ! 3) of
            None \<Rightarrow> \<lparr>run_err = Some (Failure ''exit status 1''), run_stdout = [],
                      run_stderr = ''error: the path '' @ args ! 3 @ '' does not exist''\<rparr>
          | Some c \<Rightarrow>
              if c = ''kind: Deployment''
              then \<lparr>run_err = None, run_stdout = ''deployment.apps/subscriber created'', run_stderr = []\<rparr>
              else if c = ''kind: Secret''
              then \<lparr>run_err = Some (Failure ''exit status 1''), run_stdout = ''namespace/litmus unchanged'',
                    run_stderr = ''permission denied: default/x''\<rparr>
              else if c = ''kind: Job''
              then \<lparr>run_err = Some (Failure ''signal: killed''), run_stdout = ''job.batch/x created'', run_stderr = []\<rparr>
              else \<lparr>run_err = Some (Failure ''exit status 1''), run_stdout = [],
                    run_stderr = ''error: error parsing '' @ args ! 3 @ '': invalid manifest''\<rparr>))\<rparr>"

definition lab_machine :: machine where
  "lab_machine =
     \<lparr>files = [''chaos-delegate-manifest.yaml'' \<mapsto> ''kind: Stale'', ''secret.yaml'' \<mapsto> ''kind: Secret'',
               ''job.yaml'' \<mapsto> ''kind: Job'', ''delegate.yaml'' \<mapsto> ''kind: Deployment''],
      requests = [], commands = []\<rparr>"

text \<open>An event that lets the watch go on: a pod that is not running yet.\<close>

fun not_running :: "event_object \<Rightarrow> bool" where
  "not_running (PodObject p) = (phase p \<noteq> ''Running'')"
| "not_running (OtherObject x) = False"

section \<open>NsExists: absence is a value, other failures are errors\<close>

text \<open>
  C6. \<open>NsExists\<close> returns \<open>(false, nil)\<close> when the get reports the namespace as not
  found, \<open>(true, nil)\<close> when the get succeeds with a namespace object, and \<open>(false, err)\<close>
  with the error itself when the client set cannot be built or the get fails in any other
  way. Absence is never reported as an error.
\<close>

theorem NsExists_classifies:
  "(ClientSet kubeconfig = Inl err \<longrightarrow> NsExists ClientSet namespace kubeconfig = (False, Some err)) \<and>
   (ClientSet kubeconfig = Inr cs \<longrightarrow>
      (namespaces_get cs namespace = (obj, e) \<and> IsNotFound e \<longrightarrow>
         NsExists ClientSet namespace kubeconfig = (False, None)) \<and>
      (namespaces_get cs namespace = (Some ns, None) \<longrightarrow>
         NsExists ClientSet namespace kubeconfig = (True, None)) \<and>
      (namespaces_get cs namespace = (obj, Some err) \<and> \<not> IsNotFound (Some err) \<longrightarrow>
         NsExists ClientSet namespace kubeconfig = (False, Some err)))"
  by (simp add: NsExists_def)

theorem NsExists_classifies_witness:
  "NsExists busy_cluster ''chaos'' (Some ''/none'') = (False, Some (Failure ''stat /none: no such file or directory'')) \<and>
   NsExists busy_cluster ''ghost'' None = (False, None) \<and>
   NsExists busy_cluster ''chaos'' None = (True, None) \<and>
   NsExists busy_cluster ''flaky'' None = (False, Some (Failure ''i/o timeout''))"
  using
    NsExists_classifies [where ClientSet = busy_cluster and kubeconfig = "Some ''/none''"
      and err = "Failure ''stat /none: no such file or directory''" and namespace = "''chaos''"]
    NsExists_classifies [where ClientSet = busy_cluster and kubeconfig = None
      and cs = busy_clientset and namespace = "''ghost''" and obj = None
      and e = "Some (NotFound ''namespaces ghost not found'')"]
    NsExists_classifies [where ClientSet = busy_cluster and kubeconfig = None
      and cs = busy_clientset and namespace = "''chaos''" and ns = "NamespaceObject ''chaos''"]
    NsExists_classifies [where ClientSet = busy_cluster and kubeconfig = None
      and cs = busy_clientset and namespace = "''flaky''" and obj = None
      and err = "Failure ''i/o timeout''"]
  by (simp add: busy_cluster_def busy_clientset_def)

text \<open>
  The remaining answer of the get, neither object nor error, gives \<open>(false, nil)\<close>.
\<close>

lemma NsExists_nil_nil:
  "ClientSet kubeconfig = Inr cs \<Longrightarrow> namespaces_get cs namespace = (None, None)
     \<Longrightarrow> NsExists ClientSet namespace kubeconfig = (False, None)"
  by (simp add: NsExists_def)

section \<open>CheckSAPermissions: a denial is a decision, not an error\<close>

text \<open>
  C7. \<open>CheckSAPermissions\<close> returns \<open>(false, err)\<close> when the client set cannot be built
  or the access review request fails. When the request succeeds it returns
  \<open>(allowed, nil)\<close> with the decision of the server; on a denial the reason and the
  evaluation error of the server are printed, and nothing else happens to them.
\<close>

theorem CheckSAPermissions_decides:
  "(ClientSet kubeconfig = Inl err \<longrightarrow>
      CheckSAPermissions ClientSet params kubeconfig = ((False, Some err), [])) \<and>
   (ClientSet kubeconfig = Inr client \<longrightarrow>
      (sar_create client
         \<lparr>ra_Namespace = Namespace params, ra_Verb = Verb params, ra_Group = [],
          ra_Resource = Resource params, ra_Subresource = [], ra_Name = []\<rparr> = Inl err \<longrightarrow>
         CheckSAPermissions ClientSet params kubeconfig = ((False, Some err), [])) \<and>
      (sar_create client
         \<lparr>ra_Namespace = Namespace params, ra_Verb = Verb params, ra_Group = [],
          ra_Resource = Resource params, ra_Subresource = [], ra_Name = []\<rparr> = Inr status \<longrightarrow>
         fst (CheckSAPermissions ClientSet params kubeconfig) = (Allowed status, None) \<and>
         (\<not> Allowed status \<longrightarrow>
            snd (CheckSAPermissions ClientSet params kubeconfig) =
              (if Print params then [PermissionDenied (Resource params)] else [])
              @ (if Reason status \<noteq> [] then [ReasonLine (Reason status)] else [])
              @ (if EvaluationError status \<noteq> [] then [EvaluationErrorLine (EvaluationError status)] else []))))"
  by (simp add: CheckSAPermissions_def)

theorem CheckSAPermissions_decides_witness:
  "CheckSAPermissions busy_cluster
     \<lparr>Verb = ''create'', Resource = ''namespace'', Print = True, Namespace = ''chaos''\<rparr> (Some ''/none'')
     = ((False, Some (Failure ''stat /none: no such file or directory'')), []) \<and>
   CheckSAPermissions busy_cluster
     \<lparr>Verb = ''create'', Resource = ''namespace'', Print = True, Namespace = ''unknown''\<rparr> None
     = ((False, Some (Failure ''connection refused'')), []) \<and>
   fst (CheckSAPermissions busy_cluster
     \<lparr>Verb = ''create'', Resource = ''namespace'', Print = True, Namespace = ''locked''\<rparr> None)
     = (False, None) \<and>
   snd (CheckSAPermissions busy_cluster
     \<lparr>Verb = ''create'', Resource = ''namespace'', Print = True, Namespace = ''locked''\<rparr> None)
     = [PermissionDenied ''namespace'', ReasonLine ''RBAC: no rule matched'', EvaluationErrorLine ''webhook down''] \<and>
   fst (CheckSAPermissions busy_cluster
     \<lparr>Verb = ''create'', Resource = ''namespace'', Print = True, Namespace = ''chaos''\<rparr> None)
     = (True, None)"
  using
    CheckSAPermissions_decides [where ClientSet = busy_cluster and kubeconfig = "Some ''/none''"
      and err = "Failure ''stat /none: no such file or directory''"
      and params = "\<lparr>Verb = ''create'', Resource = ''namespace'', Print = True, Namespace = ''chaos''\<rparr>"]
    CheckSAPermissions_decides [where ClientSet = busy_cluster and kubeconfig = None
      and client = busy_clientset and err = "Failure ''connection refused''"
      and params = "\<lparr>Verb = ''create'', Resource = ''namespace'', Print = True, Namespace = ''unknown''\<rparr>"]
    CheckSAPermissions_decides [where ClientSet = busy_cluster and kubeconfig = None
      and client = busy_clientset
      and status = "\<lparr>Allowed = False, Reason = ''RBAC: no rule matched'', EvaluationError = ''webhook down''\<rparr>"
      and params = "\<lparr>Verb = ''create'', Resource = ''namespace'', Print = True, Namespace = ''locked''\<rparr>"]
    CheckSAPermissions_decides [where ClientSet = busy_cluster and kubeconfig = None
      and client = busy_clientset
      and status = "\<lparr>Allowed = True, Reason = [], EvaluationError = []\<rparr>"
      and params = "\<lparr>Verb = ''create'', Resource = ''namespace'', Print = True, Namespace = ''chaos''\<rparr>"]
  by (simp add: busy_cluster_def busy_clientset_def)

section \<open>podExists: one listed pod is enough\<close>

text \<open>
  C9. When the list call succeeds, \<open>podExists\<close> returns true exactly when the list has
  at least one item; the phases of the pods are not looked at.
\<close>

theorem podExists_counts:
  assumes "ClientSet kubeconfig = Inr cs"
      and "pods_list cs (pe_Namespace params) (pe_Label params) = Inr items"
  shows "podExists ClientSet params kubeconfig = Return (items \<noteq> []) \<and>
         (podExists ClientSet params kubeconfig = Return True \<longleftrightarrow> 1 \<le> length items)"
  using assms by (cases items) (simp_all add: podExists_def)

theorem podExists_counts_witness:
  "busy_cluster None = Inr busy_clientset \<and>
   pods_list busy_clientset ''litmus'' ''app=chaos-delegate'' = Inr [\<lparr>pod_name = ''subscriber'', phase = ''Failed''\<rparr>] \<and>
   podExists busy_cluster \<lparr>pe_Namespace = ''litmus'', pe_Label = ''app=chaos-delegate''\<rparr> None = Return True \<and>
   pods_list busy_clientset ''chaos'' ''app=chaos-delegate'' = Inr [] \<and>
   podExists busy_cluster \<lparr>pe_Namespace = ''chaos'', pe_Label = ''app=chaos-delegate''\<rparr> None = Return False"
  using
    podExists_counts [where ClientSet = busy_cluster and kubeconfig = None and cs = busy_clientset
      and params = "\<lparr>pe_Namespace = ''litmus'', pe_Label = ''app=chaos-delegate''\<rparr>"
      and items = "[\<lparr>pod_name = ''subscriber'', phase = ''Failed''\<rparr>]"]
    podExists_counts [where ClientSet = busy_cluster and kubeconfig = None and cs = busy_clientset
      and params = "\<lparr>pe_Namespace = ''chaos'', pe_Label = ''app=chaos-delegate''\<rparr>"
      and items = "[]"]
  by (simp add: busy_cluster_def busy_clientset_def)

section \<open>ValidNs: which names are accepted\<close>

text \<open>What a pass that accepts a name has found out about it.\<close>

lemma ValidNs_cycle_accepts:
  assumes "ValidNs_cycle ClientSet DefaultNs mode label kubeconfig scanned = (printed, Some (Return (N, b)))"
  shows "N = (if scanned = [] then DefaultNs else scanned) \<and>
         (mode = ''namespace'' \<or> mode = ''cluster'') \<and>
         (if b then NsExists ClientSet N kubeconfig = (True, None) \<and>
                    podExists ClientSet \<lparr>pe_Namespace = N, pe_Label = label\<rparr> kubeconfig = Return False
          else NsExists ClientSet N kubeconfig = (False, None) \<and>
               fst (fst (CheckSAPermissions ClientSet
                 \<lparr>Verb = ''create'', Resource = ''namespace'', Print = False, Namespace = N\<rparr> kubeconfig)))"
  using assms unfolding ValidNs_cycle_def Let_def
  by (auto split: if_splits option.splits prod.splits outcome.splits)

text \<open>A name the function returns was accepted by some pass.\<close>

lemma ValidNs_from_accepts:
  assumes "ValidNs_from ClientSet DefaultNs mode label kubeconfig stdin out = Some y"
      and "snd y = Return (N, b)"
  shows "\<exists>scanned pr. ValidNs_cycle ClientSet DefaultNs mode label kubeconfig scanned = (pr, Some (Return (N, b)))"
  using assms(2)
proof (induction rule: ValidNs_from.raw_induct [OF _ assms(1)])
  case (1 loop ClientSet DefaultNs mode label kubeconfig stdin out y)
  obtain pr r where c: "ValidNs_cycle ClientSet DefaultNs mode label kubeconfig (Scanln stdin) = (pr, r)"
    by (cases "ValidNs_cycle ClientSet DefaultNs mode label kubeconfig (Scanln stdin)")
  show ?case
  proof (cases r)
    case None
    with c "1.hyps" have "loop ClientSet DefaultNs mode label kubeconfig (tl stdin) (out @ pr) = Some y"
      by simp
    from "1.IH" [OF this "1.prems"] show ?thesis .
  next
    case (Some e)
    with c "1.hyps" "1.prems" have "e = Return (N, b)" by auto
    with c Some show ?thesis by blast
  qed
qed

text \<open>Passes that end in \<open>goto start\<close> are skipped; a pass that ends otherwise ends the call.\<close>

lemma ValidNs_from_skips:
  "\<forall>x\<in>set pre. snd (ValidNs_cycle ClientSet DefaultNs mode label kubeconfig x) = None \<Longrightarrow>
   ValidNs_from ClientSet DefaultNs mode label kubeconfig (pre @ rest) out =
   ValidNs_from ClientSet DefaultNs mode label kubeconfig rest
     (out @ concat (map (\<lambda>x. fst (ValidNs_cycle ClientSet DefaultNs mode label kubeconfig x)) pre))"
proof (induction pre arbitrary: out)
  case Nil
  then show ?case by simp
next
  case (Cons x pre)
  obtain pr where c: "ValidNs_cycle ClientSet DefaultNs mode label kubeconfig x = (pr, None)"
    using Cons.prems by (cases "ValidNs_cycle ClientSet DefaultNs mode label kubeconfig x") auto
  have "ValidNs_from ClientSet DefaultNs mode label kubeconfig ((x # pre) @ rest) out =
        ValidNs_from ClientSet DefaultNs mode label kubeconfig (pre @ rest) (out @ pr)"
    by (subst ValidNs_from.simps) (simp add: c)
  also have "\<dots> = ValidNs_from ClientSet DefaultNs mode label kubeconfig rest
     ((out @ pr) @ concat (map (\<lambda>x. fst (ValidNs_cycle ClientSet DefaultNs mode label kubeconfig x)) pre))"
    using Cons.prems by (intro Cons.IH) simp
  finally show ?case by (simp add: c)
qed

lemma ValidNs_from_ends:
  "snd (ValidNs_cycle ClientSet DefaultNs mode label kubeconfig (Scanln stdin)) \<noteq> None \<Longrightarrow>
   ValidNs_from ClientSet DefaultNs mode label kubeconfig stdin out =
   Some (out @ fst (ValidNs_cycle ClientSet DefaultNs mode label kubeconfig (Scanln stdin)),
         the (snd (ValidNs_cycle ClientSet DefaultNs mode label kubeconfig (Scanln stdin))))"
  by (subst ValidNs_from.simps) (auto split: prod.splits option.splits)

lemma ValidNs_from_again:
  "snd (ValidNs_cycle ClientSet DefaultNs mode label kubeconfig (Scanln stdin)) = None \<Longrightarrow>
   ValidNs_from ClientSet DefaultNs mode label kubeconfig stdin out =
   ValidNs_from ClientSet DefaultNs mode label kubeconfig (tl stdin)
     (out @ fst (ValidNs_cycle ClientSet DefaultNs mode label kubeconfig (Scanln stdin)))"
  by (subst ValidNs_from.simps) (auto split: prod.splits option.splits)

text \<open>
  At the end of the input every prompt reads the default name; when that name is rejected
  the passes never end.
\<close>

lemma ValidNs_from_end_of_input_aux:
  assumes "ValidNs_from ClientSet DefaultNs mode label kubeconfig stdin out = Some y"
      and "stdin = []"
      and "snd (ValidNs_cycle ClientSet DefaultNs mode label kubeconfig []) = None"
  shows False
  using assms(2,3)
proof (induction rule: ValidNs_from.raw_induct [OF _ assms(1)])
  case (1 loop ClientSet DefaultNs mode label kubeconfig stdin out y)
  obtain pr where "ValidNs_cycle ClientSet DefaultNs mode label kubeconfig [] = (pr, None)"
    using "1.prems" by (cases "ValidNs_cycle ClientSet DefaultNs mode label kubeconfig []") auto
  with "1.hyps" "1.prems" have "loop ClientSet DefaultNs mode label kubeconfig [] (out @ pr) = Some y"
    by simp
  from "1.IH" [OF this] "1.prems" show ?case by simp
qed

lemma ValidNs_from_end_of_input:
  assumes "snd (ValidNs_cycle ClientSet DefaultNs mode label kubeconfig []) = None"
  shows "ValidNs_from ClientSet DefaultNs mode label kubeconfig [] out = None"
proof (cases "ValidNs_from ClientSet DefaultNs mode label kubeconfig [] out")
  case None
  then show ?thesis .
next
  case (Some y)
  from ValidNs_from_end_of_input_aux [OF this refl assms] show ?thesis ..
qed

text \<open>
  C1. A name that does not exist (\<open>NsExists\<close> gives \<open>(false, nil)\<close>) and for which the
  permission probe does not answer true is never the name \<open>ValidNs\<close> returns, whatever is
  typed; the pass that reads it prints that the permission is missing and goes back to the
  prompt with the rest of the input.
\<close>

theorem ValidNs_rejects_uncreatable:
  assumes "NsExists ClientSet N kubeconfig = (False, None)"
      and "\<not> fst (fst (CheckSAPermissions ClientSet
                \<lparr>Verb = ''create'', Resource = ''namespace'', Print = False, Namespace = N\<rparr> kubeconfig))"
  shows "ValidNs ClientSet DefaultNs mode label kubeconfig stdin \<noteq> Some (printed, Return (N, b)) \<and>
         ((mode = ''namespace'' \<or> mode = ''cluster'') \<and> (if scanned = [] then DefaultNs else scanned) = N \<longrightarrow>
            snd (ValidNs_cycle ClientSet DefaultNs mode label kubeconfig scanned) = None \<and>
            last (fst (ValidNs_cycle ClientSet DefaultNs mode label kubeconfig scanned)) = NoCreatePermission \<and>
            ValidNs_from ClientSet DefaultNs mode label kubeconfig (scanned # rest) out =
            ValidNs_from ClientSet DefaultNs mode label kubeconfig rest
              (out @ fst (ValidNs_cycle ClientSet DefaultNs mode label kubeconfig scanned)))"
proof (intro conjI impI)
  show "ValidNs ClientSet DefaultNs mode label kubeconfig stdin \<noteq> Some (printed, Return (N, b))"
  proof
    assume "ValidNs ClientSet DefaultNs mode label kubeconfig stdin = Some (printed, Return (N, b))"
    then have "ValidNs_from ClientSet DefaultNs mode label kubeconfig stdin [] = Some (printed, Return (N, b))"
      by (simp add: ValidNs_def)
    from ValidNs_from_accepts [OF this] obtain scanned pr where
      "ValidNs_cycle ClientSet DefaultNs mode label kubeconfig scanned = (pr, Some (Return (N, b)))"
      by auto
    from ValidNs_cycle_accepts [OF this] assms show False
      by (auto split: if_splits)
  qed
next
  assume m: "(mode = ''namespace'' \<or> mode = ''cluster'') \<and> (if scanned = [] then DefaultNs else scanned) = N"
  obtain r pr where c: "CheckSAPermissions ClientSet
                \<lparr>Verb = ''create'', Resource = ''namespace'', Print = False, Namespace = N\<rparr> kubeconfig = ((False, r), pr)"
    using assms(2)
    by (cases "CheckSAPermissions ClientSet
                \<lparr>Verb = ''create'', Resource = ''namespace'', Print = False, Namespace = N\<rparr> kubeconfig") auto
  from m assms(1) c show none: "snd (ValidNs_cycle ClientSet DefaultNs mode label kubeconfig scanned) = None"
    unfolding ValidNs_cycle_def Let_def by auto
  from m assms(1) c show "last (fst (ValidNs_cycle ClientSet DefaultNs mode label kubeconfig scanned)) = NoCreatePermission"
    unfolding ValidNs_cycle_def Let_def by auto
  from none show "ValidNs_from ClientSet DefaultNs mode label kubeconfig (scanned # rest) out =
            ValidNs_from ClientSet DefaultNs mode label kubeconfig rest
              (out @ fst (ValidNs_cycle ClientSet DefaultNs mode label kubeconfig scanned))"
    using ValidNs_from_again [of ClientSet DefaultNs mode label kubeconfig "scanned # rest" out] by simp
qed

theorem ValidNs_rejects_uncreatable_witness:
  "NsExists busy_cluster ''locked'' None = (False, None) \<and>
   \<not> fst (fst (CheckSAPermissions busy_cluster
          \<lparr>Verb = ''create'', Resource = ''namespace'', Print = False, Namespace = ''locked''\<rparr> None)) \<and>
   ValidNs busy_cluster ''litmus'' ''cluster'' ''app=chaos-delegate'' None [''locked'', ''chaos'']
     \<noteq> Some ([], Return (''locked'', False)) \<and>
   ValidNs busy_cluster ''litmus'' ''cluster'' ''app=chaos-delegate'' None [''locked'', ''chaos''] =
     Some ([PromptNewOrExistingNs ''litmus'', ReasonLine ''RBAC: no rule matched'',
            EvaluationErrorLine ''webhook down'', NoCreatePermission,
            PromptNewOrExistingNs ''litmus'', ContinuingWith ''chaos''], Return (''chaos'', True)) \<and>
   snd (ValidNs_cycle busy_cluster ''litmus'' ''cluster'' ''app=chaos-delegate'' None ''locked'') = None \<and>
   ValidNs_from busy_cluster ''litmus'' ''cluster'' ''app=chaos-delegate'' None [''locked'', ''chaos''] [] =
     ValidNs_from busy_cluster ''litmus'' ''cluster'' ''app=chaos-delegate'' None [''chaos'']
       [PromptNewOrExistingNs ''litmus'', ReasonLine ''RBAC: no rule matched'',
        EvaluationErrorLine ''webhook down'', NoCreatePermission]"
  using
    ValidNs_rejects_uncreatable [where ClientSet = busy_cluster and DefaultNs = "''litmus''"
      and mode = "''cluster''" and label = "''app=chaos-delegate''" and kubeconfig = None
      and N = "''locked''" and scanned = "''locked''" and stdin = "[''locked'', ''chaos'']"
      and printed = "[]" and b = False and rest = "[''chaos'']" and out = "[]"]
  by (simp add: ValidNs_def ValidNs_from_again ValidNs_from_ends ValidNs_cycle_def Let_def NsExists_def
      podExists_def CheckSAPermissions_def busy_cluster_def busy_clientset_def)

text \<open>
  C2. A name that exists and holds a pod with the delegate label is never the name
  \<open>ValidNs\<close> returns; nothing is assumed about permissions. The pass that reads it says
  that a delegate is present and goes back to the prompt.
\<close>

theorem ValidNs_rejects_occupied:
  assumes "NsExists ClientSet N kubeconfig = (True, None)"
      and "podExists ClientSet \<lparr>pe_Namespace = N, pe_Label = label\<rparr> kubeconfig = Return True"
  shows "ValidNs ClientSet DefaultNs mode label kubeconfig stdin \<noteq> Some (printed, Return (N, b)) \<and>
         ((mode = ''namespace'' \<or> mode = ''cluster'') \<and> (if scanned = [] then DefaultNs else scanned) = N \<longrightarrow>
            snd (ValidNs_cycle ClientSet DefaultNs mode label kubeconfig scanned) = None \<and>
            last (fst (ValidNs_cycle ClientSet DefaultNs mode label kubeconfig scanned)) = DelegateAlreadyPresent \<and>
            ValidNs_from ClientSet DefaultNs mode label kubeconfig (scanned # rest) out =
            ValidNs_from ClientSet DefaultNs mode label kubeconfig rest
              (out @ fst (ValidNs_cycle ClientSet DefaultNs mode label kubeconfig scanned)))"
proof (intro conjI impI)
  show "ValidNs ClientSet DefaultNs mode label kubeconfig stdin \<noteq> Some (printed, Return (N, b))"
  proof
    assume "ValidNs ClientSet DefaultNs mode label kubeconfig stdin = Some (printed, Return (N, b))"
    then have "ValidNs_from ClientSet DefaultNs mode label kubeconfig stdin [] = Some (printed, Return (N, b))"
      by (simp add: ValidNs_def)
    from ValidNs_from_accepts [OF this] obtain scanned pr where
      "ValidNs_cycle ClientSet DefaultNs mode label kubeconfig scanned = (pr, Some (Return (N, b)))"
      by auto
    from ValidNs_cycle_accepts [OF this] assms show False
      by (auto split: if_splits)
  qed
next
  assume m: "(mode = ''namespace'' \<or> mode = ''cluster'') \<and> (if scanned = [] then DefaultNs else scanned) = N"
  from m assms show none: "snd (ValidNs_cycle ClientSet DefaultNs mode label kubeconfig scanned) = None"
    unfolding ValidNs_cycle_def Let_def by auto
  from m assms show "last (fst (ValidNs_cycle ClientSet DefaultNs mode label kubeconfig scanned)) = DelegateAlreadyPresent"
    unfolding ValidNs_cycle_def Let_def by auto
  from none show "ValidNs_from ClientSet DefaultNs mode label kubeconfig (scanned # rest) out =
            ValidNs_from ClientSet DefaultNs mode label kubeconfig rest
              (out @ fst (ValidNs_cycle ClientSet DefaultNs mode label kubeconfig scanned))"
    using ValidNs_from_again [of ClientSet DefaultNs mode label kubeconfig "scanned # rest" out] by simp
qed

theorem ValidNs_rejects_occupied_witness:
  "NsExists busy_cluster ''litmus'' None = (True, None) \<and>
   podExists busy_cluster \<lparr>pe_Namespace = ''litmus'', pe_Label = ''app=chaos-delegate''\<rparr> None = Return True \<and>
   ValidNs busy_cluster ''litmus'' ''cluster'' ''app=chaos-delegate'' None [''litmus'', ''chaos'']
     \<noteq> Some ([], Return (''litmus'', True)) \<and>
   ValidNs busy_cluster ''litmus'' ''cluster'' ''app=chaos-delegate'' None [''litmus'', ''chaos''] =
     Some ([PromptNewOrExistingNs ''litmus'', DelegateAlreadyPresent,
            PromptNewOrExistingNs ''litmus'', ContinuingWith ''chaos''], Return (''chaos'', True)) \<and>
   snd (ValidNs_cycle busy_cluster ''litmus'' ''cluster'' ''app=chaos-delegate'' None ''litmus'') = None \<and>
   ValidNs_from busy_cluster ''litmus'' ''cluster'' ''app=chaos-delegate'' None [''litmus'', ''chaos''] [] =
     ValidNs_from busy_cluster ''litmus'' ''cluster'' ''app=chaos-delegate'' None [''chaos'']
       [PromptNewOrExistingNs ''litmus'', DelegateAlreadyPresent]"
  using
    ValidNs_rejects_occupied [where ClientSet = busy_cluster and DefaultNs = "''litmus''"
      and mode = "''cluster''" and label = "''app=chaos-delegate''" and kubeconfig = None
      and N = "''litmus''" and scanned = "''litmus''" and stdin = "[''litmus'', ''chaos'']"
      and printed = "[]" and b = True and rest = "[''chaos'']" and out = "[]"]
  by (simp add: ValidNs_def ValidNs_from_again ValidNs_from_ends ValidNs_cycle_def Let_def NsExists_def
      podExists_def CheckSAPermissions_def busy_cluster_def busy_clientset_def)

text \<open>
  C5. In either mode, when the name read (the default name for an empty answer) does not
  exist and the permission probe returns \<open>(true, nil)\<close>, \<open>ValidNs\<close> returns that name
  with the flag false; answers rejected before it only add to what is printed.
\<close>

theorem ValidNs_accepts_creatable:
  assumes "mode = ''namespace'' \<or> mode = ''cluster''"
      and "(if scanned = [] then DefaultNs else scanned) = N"
      and "NsExists ClientSet N kubeconfig = (False, None)"
      and "fst (CheckSAPermissions ClientSet
             \<lparr>Verb = ''create'', Resource = ''namespace'', Print = False, Namespace = N\<rparr> kubeconfig)
           = (True, None)"
      and "\<forall>x\<in>set pre. snd (ValidNs_cycle ClientSet DefaultNs mode label kubeconfig x) = None"
  shows "ValidNs ClientSet DefaultNs mode label kubeconfig (pre @ scanned # rest) =
         Some (concat (map (\<lambda>x. fst (ValidNs_cycle ClientSet DefaultNs mode label kubeconfig x)) (pre @ [scanned])),
               Return (N, False))"
proof -
  obtain pr where c: "CheckSAPermissions ClientSet
             \<lparr>Verb = ''create'', Resource = ''namespace'', Print = False, Namespace = N\<rparr> kubeconfig
           = ((True, None), pr)"
    using assms(4)
    by (cases "CheckSAPermissions ClientSet
             \<lparr>Verb = ''create'', Resource = ''namespace'', Print = False, Namespace = N\<rparr> kubeconfig") auto
  from assms(1-3) c have r: "snd (ValidNs_cycle ClientSet DefaultNs mode label kubeconfig scanned) = Some (Return (N, False))"
    unfolding ValidNs_cycle_def Let_def by auto
  have "ValidNs ClientSet DefaultNs mode label kubeconfig (pre @ scanned # rest) =
        ValidNs_from ClientSet DefaultNs mode label kubeconfig (scanned # rest)
          (concat (map (\<lambda>x. fst (ValidNs_cycle ClientSet DefaultNs mode label kubeconfig x)) pre))"
    unfolding ValidNs_def using ValidNs_from_skips [OF assms(5), of "scanned # rest" "[]"] by simp
  also have "\<dots> = Some (concat (map (\<lambda>x. fst (ValidNs_cycle ClientSet DefaultNs mode label kubeconfig x)) pre)
                       @ fst (ValidNs_cycle ClientSet DefaultNs mode label kubeconfig scanned),
                     Return (N, False))"
    using r ValidNs_from_ends [of ClientSet DefaultNs mode label kubeconfig "scanned # rest"] by simp
  finally show ?thesis by simp
qed

theorem ValidNs_accepts_creatable_witness:
  "NsExists fresh_cluster ''litmus'' None = (False, None) \<and>
   fst (CheckSAPermissions fresh_cluster
          \<lparr>Verb = ''create'', Resource = ''namespace'', Print = False, Namespace = ''litmus''\<rparr> None) = (True, None) \<and>
   ValidNs fresh_cluster ''default-ns'' ''cluster'' ''app=chaos-delegate'' None [''litmus''] =
     Some ([PromptNewOrExistingNs ''default-ns''], Return (''litmus'', False)) \<and>
   ValidNs busy_cluster ''litmus'' ''namespace'' ''app=chaos-delegate'' None [[], ''locked'', ''staging'', ''chaos''] =
     Some ([PromptExistingNs ''litmus'', DelegateAlreadyPresent,
            PromptExistingNs ''litmus'', ReasonLine ''RBAC: no rule matched'',
            EvaluationErrorLine ''webhook down'', NoCreatePermission,
            PromptExistingNs ''litmus''], Return (''staging'', False))"
  using
    ValidNs_accepts_creatable [where ClientSet = fresh_cluster and DefaultNs = "''default-ns''"
      and mode = "''cluster''" and label = "''app=chaos-delegate''" and kubeconfig = None
      and scanned = "''litmus''" and N = "''litmus''" and pre = "[]" and rest = "[]"]
    ValidNs_accepts_creatable [where ClientSet = busy_cluster and DefaultNs = "''litmus''"
      and mode = "''namespace''" and label = "''app=chaos-delegate''" and kubeconfig = None
      and scanned = "''staging''" and N = "''staging''" and pre = "[[], ''locked'']" and rest = "[''chaos'']"]
  by (simp add: ValidNs_cycle_def Let_def NsExists_def podExists_def CheckSAPermissions_def
      busy_cluster_def busy_clientset_def fresh_cluster_def fresh_clientset_def)

section \<open>WatchPod: when the watch returns\<close>

text \<open>Events of pods that are not running only print the progress line.\<close>

lemma watch_events_skips:
  "list_all not_running pre \<Longrightarrow>
   watch_events (pre @ rest) closed out = watch_events rest closed (out @ replicate (length pre) Connecting)"
proof (induction pre arbitrary: out)
  case Nil
  then show ?case by simp
next
  case (Cons e pre)
  then obtain p where e: "e = PodObject p" "phase p \<noteq> ''Running''"
    by (cases e) auto
  from Cons have "watch_events (pre @ rest) closed (out @ [Connecting]) =
      watch_events rest closed ((out @ [Connecting]) @ replicate (length pre) Connecting)"
    by simp
  with e show ?case by (simp add: replicate_app_Cons_same)
qed

text \<open>The loop returns exactly when it meets a running pod or the channel is closed on it.\<close>

lemma watch_events_returns:
  "snd (snd (watch_events evs closed out)) = Return () \<longleftrightarrow>
     (\<exists>pre p rest. evs = pre @ PodObject p # rest \<and> list_all not_running pre \<and> phase p = ''Running'') \<or>
     (closed \<and> list_all not_running evs)"
proof (induction evs arbitrary: out)
  case Nil
  then show ?case by simp
next
  case (Cons e evs)
  show ?case
  proof (cases e)
    case (OtherObject x)
    have "\<not> (\<exists>pre p rest. OtherObject x # evs = pre @ PodObject p # rest \<and> list_all not_running pre \<and> phase p = ''Running'')"
      by (auto simp: Cons_eq_append_conv)
    with OtherObject show ?thesis by simp
  next
    case (PodObject p)
    show ?thesis
    proof (cases "phase p = ''Running''")
      case True
      have "e # evs = [] @ PodObject p # evs \<and> list_all not_running []" using PodObject by simp
      with True have "\<exists>pre p rest. e # evs = pre @ PodObject p # rest \<and> list_all not_running pre \<and> phase p = ''Running''"
        by blast
      with PodObject True show ?thesis by simp
    next
      case False
      have "(\<exists>pre q rest. e # evs = pre @ PodObject q # rest \<and> list_all not_running pre \<and> phase q = ''Running'')
          \<longleftrightarrow> (\<exists>pre q rest. evs = pre @ PodObject q # rest \<and> list_all not_running pre \<and> phase q = ''Running'')"
        (is "?L \<longleftrightarrow> ?R")
      proof
        assume ?L
        then obtain pre q rest where h: "e # evs = pre @ PodObject q # rest" "list_all not_running pre" "phase q = ''Running''"
          by blast
        with False PodObject obtain pre' where "pre = e # pre'" by (cases pre) auto
        with h show ?R by auto
      next
        assume ?R
        then obtain pre q rest where h: "evs = pre @ PodObject q # rest" "list_all not_running pre" "phase q = ''Running''"
          by blast
        then have "e # evs = (e # pre) @ PodObject q # rest \<and> list_all not_running (e # pre)"
          using False PodObject by simp
        with h(3) show ?L by blast
      qed
      with Cons.IH [of "out @ [Connecting]"] False PodObject show ?thesis by simp
    qed
  qed
qed

text \<open>
  C8. \<open>WatchPod\<close> returns in exactly two cases: a pod whose phase is \<open>Running\<close> is
  received (the watch is stopped), or the server closes the channel (the watch is not
  stopped, and nothing tells the caller). An event received before that whose object is
  not a pod ends the process.
\<close>

theorem WatchPod_returns:
  "(snd (snd (WatchPod ClientSet params kubeconfig)) = Return () \<longleftrightarrow>
      (\<exists>cs w. ClientSet kubeconfig = Inr cs \<and>
         pods_watch cs (wp_Namespace params) (wp_Label params) = Inr w \<and>
         ((\<exists>pre p rest. events w = pre @ PodObject p # rest \<and> list_all not_running pre \<and> phase p = ''Running'') \<or>
          (closes w \<and> list_all not_running (events w))))) \<and>
   (ClientSet kubeconfig = Inr cs \<and> pods_watch cs (wp_Namespace params) (wp_Label params) = Inr w \<longrightarrow>
      (events w = pre @ PodObject p # rest \<and> list_all not_running pre \<and> phase p = ''Running'' \<longrightarrow>
         WatchPod ClientSet params kubeconfig =
           (replicate (length pre + 1) Connecting @ [DelegateRunning], True, Return ())) \<and>
      (closes w \<and> list_all not_running (events w) \<longrightarrow>
         WatchPod ClientSet params kubeconfig = (replicate (length (events w)) Connecting, False, Return ())) \<and>
      (events w = pre @ OtherObject x # rest \<and> list_all not_running pre \<longrightarrow>
         WatchPod ClientSet params kubeconfig = (replicate (length pre) Connecting, False, Fatal ''unexpected type'')))"
proof (intro conjI impI)
  show "snd (snd (WatchPod ClientSet params kubeconfig)) = Return () \<longleftrightarrow>
      (\<exists>cs w. ClientSet kubeconfig = Inr cs \<and>
         pods_watch cs (wp_Namespace params) (wp_Label params) = Inr w \<and>
         ((\<exists>pre p rest. events w = pre @ PodObject p # rest \<and> list_all not_running pre \<and> phase p = ''Running'') \<or>
          (closes w \<and> list_all not_running (events w))))"
  proof (cases "ClientSet kubeconfig")
    case (Inl err)
    then show ?thesis by (simp add: WatchPod_def)
  next
    case (Inr cs)
    show ?thesis
    proof (cases "pods_watch cs (wp_Namespace params) (wp_Label params)")
      case (Inl err)
      with Inr show ?thesis by (simp add: WatchPod_def)
    next
      case w: (Inr w)
      with Inr show ?thesis
        using watch_events_returns [of "events w" "closes w" "[]"] by (simp add: WatchPod_def)
    qed
  qed
next
  assume a: "ClientSet kubeconfig = Inr cs \<and> pods_watch cs (wp_Namespace params) (wp_Label params) = Inr w"
     and b: "events w = pre @ PodObject p # rest \<and> list_all not_running pre \<and> phase p = ''Running''"
  then show "WatchPod ClientSet params kubeconfig =
           (replicate (length pre + 1) Connecting @ [DelegateRunning], True, Return ())"
    using watch_events_skips [of pre "PodObject p # rest" "closes w" "[]"]
    by (simp add: WatchPod_def replicate_append_same)
next
  assume a: "ClientSet kubeconfig = Inr cs \<and> pods_watch cs (wp_Namespace params) (wp_Label params) = Inr w"
     and b: "closes w \<and> list_all not_running (events w)"
  then show "WatchPod ClientSet params kubeconfig = (replicate (length (events w)) Connecting, False, Return ())"
    using watch_events_skips [of "events w" "[]" "closes w" "[]"]
    by (simp add: WatchPod_def)
next
  assume a: "ClientSet kubeconfig = Inr cs \<and> pods_watch cs (wp_Namespace params) (wp_Label params) = Inr w"
     and b: "events w = pre @ OtherObject x # rest \<and> list_all not_running pre"
  then show "WatchPod ClientSet params kubeconfig = (replicate (length pre) Connecting, False, Fatal ''unexpected type'')"
    using watch_events_skips [of pre "OtherObject x # rest" "closes w" "[]"]
    by (simp add: WatchPod_def)
qed

theorem WatchPod_returns_witness:
  "WatchPod busy_cluster \<lparr>wp_Namespace = ''litmus'', wp_Label = ''app=chaos-delegate''\<rparr> None =
     ([Connecting, Connecting, DelegateRunning], True, Return ()) \<and>
   WatchPod busy_cluster \<lparr>wp_Namespace = ''chaos'', wp_Label = ''app=chaos-delegate''\<rparr> None =
     ([Connecting], False, Return ()) \<and>
   WatchPod busy_cluster \<lparr>wp_Namespace = ''odd'', wp_Label = ''app=chaos-delegate''\<rparr> None =
     ([Connecting], False, Fatal ''unexpected type'')"
  using
    WatchPod_returns [where ClientSet = busy_cluster and kubeconfig = None and cs = busy_clientset
      and params = "\<lparr>wp_Namespace = ''litmus'', wp_Label = ''app=chaos-delegate''\<rparr>"
      and w = "\<lparr>events = [PodObject \<lparr>pod_name = ''subscriber'', phase = ''Pending''\<rparr>,
                              PodObject \<lparr>pod_name = ''subscriber'', phase = ''Running''\<rparr>,
                              OtherObject ''Status''], closes = False\<rparr>"
      and pre = "[PodObject \<lparr>pod_name = ''subscriber'', phase = ''Pending''\<rparr>]"
      and p = "\<lparr>pod_name = ''subscriber'', phase = ''Running''\<rparr>"
      and rest = "[OtherObject ''Status'']"]
    WatchPod_returns [where ClientSet = busy_cluster and kubeconfig = None and cs = busy_clientset
      and params = "\<lparr>wp_Namespace = ''chaos'', wp_Label = ''app=chaos-delegate''\<rparr>"
      and w = "\<lparr>events = [PodObject \<lparr>pod_name = ''subscriber'', phase = ''Pending''\<rparr>], closes = True\<rparr>"]
    WatchPod_returns [where ClientSet = busy_cluster and kubeconfig = None and cs = busy_clientset
      and params = "\<lparr>wp_Namespace = ''odd'', wp_Label = ''app=chaos-delegate''\<rparr>"
      and w = "\<lparr>events = [PodObject \<lparr>pod_name = ''subscriber'', phase = ''Pending''\<rparr>,
                              OtherObject ''Status''], closes = True\<rparr>"
      and pre = "[PodObject \<lparr>pod_name = ''subscriber'', phase = ''Pending''\<rparr>]"
      and x = "''Status''" and rest = "[]"]
  by (simp add: busy_cluster_def busy_clientset_def)

section \<open>ApplyYaml: what is fetched, applied and reported\<close>

text \<open>A format without a percent sign is printed as it is.\<close>

lemma skip_literal_plain:
  "i \<le> length format \<Longrightarrow> CHR ''%'' \<notin> set (drop i format) \<Longrightarrow> skip_literal format i = length format"
proof (induction format i rule: skip_literal.induct)
  case (1 format i)
  show ?case
  proof (cases "i < length format")
    case True
    then have "format ! i \<in> set (drop i format)"
      by (metis Cons_nth_drop_Suc list.set_intros(1))
    with "1.prems" have ne: "format ! i \<noteq> CHR ''%''" by auto
    from True have "set (drop (i + 1) format) \<subseteq> set (drop i format)"
      by (simp add: set_drop_subset_set_drop)
    with "1.prems" have "CHR ''%'' \<notin> set (drop (i + 1) format)" by auto
    with "1.IH" True ne have "skip_literal format (i + 1) = length format" by simp
    with True ne show ?thesis by (subst skip_literal.simps) simp
  next
    case False
    with "1.prems" show ?thesis by (subst skip_literal.simps) simp
  qed
qed

lemma Sprintf_plain: "CHR ''%'' \<notin> set format \<Longrightarrow> Sprintf format = format"
proof (cases "format = []")
  case True
  then show ?thesis unfolding Sprintf_def by (subst doPrintf.simps) simp
next
  case False
  assume "CHR ''%'' \<notin> set format"
  then have "skip_literal format 0 = length format"
    using skip_literal_plain [of 0 format] by simp
  with False show ?thesis unfolding Sprintf_def by (subst doPrintf.simps) simp
qed

text \<open>What the local branch returns, by the result of the command.\<close>

lemma ApplyYaml_local:
  assumes "Run h ([''kubectl'', ''apply'', ''-f'', YamlPath params] @
                  (if kubeconfig \<noteq> [] then [''--kubeconfig'', kubeconfig] else [])) (files m) = r"
  shows "ApplyYaml h params kubeconfig True m =
           ((case run_err r of
               Some err \<Rightarrow> if run_stderr r \<noteq> [] then ([], Some (Errorf (run_stderr r))) else ([], Some err)
             | None \<Rightarrow> (run_stdout r, None)),
            m\<lparr>commands := commands m @ [[''kubectl'', ''apply'', ''-f'', YamlPath params] @
                  (if kubeconfig \<noteq> [] then [''--kubeconfig'', kubeconfig] else [])]\<rparr>)"
proof (cases "kubeconfig = []")
  case True
  with assms show ?thesis by (simp add: ApplyYaml_def Let_def split: option.splits)
next
  case False
  with assms show ?thesis by (simp add: ApplyYaml_def Let_def split: option.splits)
qed

text \<open>
  The error of a failed command with something on standard error is \<open>fmt.Errorf\<close> of
  that text, which is the text itself when it has no percent sign; with nothing on
  standard error it is the error of the run; a command that succeeds gives its output.
\<close>

lemma ApplyYaml_local_results:
  assumes "Run h ([''kubectl'', ''apply'', ''-f'', YamlPath params] @
                  (if kubeconfig \<noteq> [] then [''--kubeconfig'', kubeconfig] else [])) (files m) = r"
  shows "(run_err r = Some err \<and> run_stderr r \<noteq> [] \<longrightarrow>
            fst (ApplyYaml h params kubeconfig True m) = ([], Some (ErrorString (Sprintf (run_stderr r))))) \<and>
         (run_err r = Some err \<and> run_stderr r \<noteq> [] \<and> CHR ''%'' \<notin> set (run_stderr r) \<longrightarrow>
            fst (ApplyYaml h params kubeconfig True m) = ([], Some (ErrorString (run_stderr r)))) \<and>
         (run_err r = Some err \<and> run_stderr r = [] \<longrightarrow>
            fst (ApplyYaml h params kubeconfig True m) = ([], Some err)) \<and>
         (run_err r = None \<longrightarrow> fst (ApplyYaml h params kubeconfig True m) = (run_stdout r, None))"
  by (simp add: ApplyYaml_local [OF assms] Errorf_def Sprintf_plain)

text \<open>Evaluating the formatting functions on a given format.\<close>

lemmas fmt_eval = Sprintf_def doPrintf.simps skip_literal.simps directive_def skip_flags.simps
  argNumber_def width_stage_def precision_stage_def parsenum_def parsenum_from.simps tooLarge_def
  decode_verb_def Let_def parseArgNumber_def find_bracket.simps

lemma Sprintf_missing_path:
  "Sprintf ''error: the path chaos%20delegate.yaml does not exist'' =
     ''error: the path chaos%!d(MISSING)elegate.yaml does not exist''"
  by (simp add: fmt_eval)

text \<open>
  A point that ends the format is the verb of its directive, not the start of a
  precision: the precision is looked for only when a byte follows the point.
\<close>

lemma Sprintf_trailing_point:
  "Sprintf ''%.'' = ''%!.(MISSING)'' \<and>
   Sprintf ''error: disk usage is at 100%.'' = ''error: disk usage is at 100%!.(MISSING)'' \<and>
   Sprintf ''%.2'' = ''%!(NOVERB)'' \<and>
   Sprintf ''%.x'' = ''%!x(MISSING)''"
  by (simp add: fmt_eval)

text \<open>
  C3. Applying the local file \<open>chaos%20delegate.yaml\<close>, which does not exist: \<open>kubectl\<close>
  fails and its standard error names the path. The error \<open>ApplyYaml\<close> returns does not
  carry that text: \<open>%20d\<close> in it was read as a formatting directive with no operand.
\<close>

theorem ApplyYaml_stderr_percent:
  "run_stderr (Run lab_host [''kubectl'', ''apply'', ''-f'', ''chaos%20delegate.yaml''] (files lab_machine)) =
     ''error: the path chaos%20delegate.yaml does not exist'' \<and>
   fst (ApplyYaml lab_host \<lparr>Token = [], Endpoint = [], YamlPath = ''chaos%20delegate.yaml''\<rparr> [] True lab_machine) =
     ([], Some (ErrorString ''error: the path chaos%!d(MISSING)elegate.yaml does not exist'')) \<and>
   map_option message
     (snd (fst (ApplyYaml lab_host \<lparr>Token = [], Endpoint = [], YamlPath = ''chaos%20delegate.yaml''\<rparr> [] True lab_machine))) \<noteq>
     Some (run_stderr (Run lab_host [''kubectl'', ''apply'', ''-f'', ''chaos%20delegate.yaml''] (files lab_machine)))"
  by (simp add: ApplyYaml_def Errorf_def Sprintf_missing_path lab_host_def lab_machine_def)

text \<open>
  C4. With \<open>isLocal\<close> false the address fetched is
  \<open>Endpoint + "/" + YamlPath + "/" + Token + ".yaml"\<close>. An error of building the request,
  of the GET, of reading the body or of writing the file is returned as it is and no
  command is run. Otherwise the file \<open>chaos-delegate-manifest.yaml\<close> holds the body
  read, whatever it held before, and \<open>kubectl apply -f\<close> is run on that file.
\<close>

theorem ApplyYaml_remote:
  assumes "url = Endpoint params @ ''/'' @ YamlPath params @ ''/'' @ Token params @ ''.yaml''"
      and "cache = ''chaos-delegate-manifest.yaml''"
  shows
   "(NewRequest h url = Some err \<longrightarrow>
       ApplyYaml h params kubeconfig False m = (([], Some err), m)) \<and>
    (NewRequest h url = None \<longrightarrow>
       (Do h url = Inl err \<longrightarrow>
          ApplyYaml h params kubeconfig False m = (([], Some err), m\<lparr>requests := requests m @ [url]\<rparr>)) \<and>
       (Do h url = Inr resp \<longrightarrow>
          (body resp = Inl err \<longrightarrow>
             ApplyYaml h params kubeconfig False m = (([], Some err), m\<lparr>requests := requests m @ [url]\<rparr>)) \<and>
          (body resp = Inr B \<longrightarrow>
             (WriteFile h cache B (files m) = Some (err, fs) \<longrightarrow>
                ApplyYaml h params kubeconfig False m =
                  (([], Some err), m\<lparr>requests := requests m @ [url], files := fs\<rparr>)) \<and>
             (WriteFile h cache B (files m) = None \<longrightarrow>
                ApplyYaml h params kubeconfig False m =
                  ApplyYaml h (params\<lparr>YamlPath := cache\<rparr>) kubeconfig True
                    (m\<lparr>requests := requests m @ [url], files := (files m)(cache \<mapsto> B)\<rparr>) \<and>
                files (snd (ApplyYaml h params kubeconfig False m)) cache = Some B \<and>
                requests (snd (ApplyYaml h params kubeconfig False m)) = requests m @ [url] \<and>
                commands (snd (ApplyYaml h params kubeconfig False m)) =
                  commands m @ [[''kubectl'', ''apply'', ''-f'', cache] @
                                (if kubeconfig \<noteq> [] then [''--kubeconfig'', kubeconfig] else [])]))))"
  unfolding assms
  by (simp add: ApplyYaml_def Let_def split: option.splits)

theorem ApplyYaml_remote_witness:
  "ApplyYaml lab_host \<lparr>Token = ''tok123'', Endpoint = ''https://cc.example'', YamlPath = ''manifests''\<rparr> [] False lab_machine =
     ((''deployment.apps/subscriber created'', None),
      lab_machine\<lparr>requests := [''https://cc.example/manifests/tok123.yaml''],
                    files := (files lab_machine)(''chaos-delegate-manifest.yaml'' \<mapsto> ''kind: Deployment''),
                    commands := [[''kubectl'', ''apply'', ''-f'', ''chaos-delegate-manifest.yaml'']]\<rparr>) \<and>
   files lab_machine ''chaos-delegate-manifest.yaml'' = Some ''kind: Stale'' \<and>
   ApplyYaml lab_host \<lparr>Token = ''tok123'', Endpoint = '':bad'', YamlPath = ''manifests''\<rparr> [] False lab_machine =
     (([], Some (Failure ''parse: missing protocol scheme'')), lab_machine) \<and>
   ApplyYaml lab_host \<lparr>Token = ''tok123'', Endpoint = ''https://down.example'', YamlPath = ''manifests''\<rparr> [] False lab_machine =
     (([], Some (Failure ''dial tcp: no such host'')),
      lab_machine\<lparr>requests := [''https://down.example/manifests/tok123.yaml'']\<rparr>) \<and>
   ApplyYaml lab_host \<lparr>Token = ''cut'', Endpoint = ''https://cc.example'', YamlPath = ''manifests''\<rparr> [] False lab_machine =
     (([], Some (Failure ''unexpected EOF'')),
      lab_machine\<lparr>requests := [''https://cc.example/manifests/cut.yaml'']\<rparr>) \<and>
   ApplyYaml lab_host \<lparr>Token = ''tok123'', Endpoint = ''https://cc.example'', YamlPath = ''manifests''\<rparr> []
       False (lab_machine\<lparr>files := [''.readonly'' \<mapsto> []]\<rparr>) =
     (([], Some (Failure ''open: read-only file system'')),
      lab_machine\<lparr>requests := [''https://cc.example/manifests/tok123.yaml''], files := [''.readonly'' \<mapsto> []]\<rparr>)"
  using
    ApplyYaml_remote [where h = lab_host and m = lab_machine and kubeconfig = "[]"
      and params = "\<lparr>Token = ''tok123'', Endpoint = ''https://cc.example'', YamlPath = ''manifests''\<rparr>"
      and url = "''https://cc.example/manifests/tok123.yaml''" and cache = "''chaos-delegate-manifest.yaml''"
      and resp = "\<lparr>statusCode = 200, body = Inr ''kind: Deployment''\<rparr>" and B = "''kind: Deployment''"]
    ApplyYaml_remote [where h = lab_host and m = lab_machine and kubeconfig = "[]"
      and params = "\<lparr>Token = ''tok123'', Endpoint = '':bad'', YamlPath = ''manifests''\<rparr>"
      and url = "'':bad/manifests/tok123.yaml''" and cache = "''chaos-delegate-manifest.yaml''"
      and err = "Failure ''parse: missing protocol scheme''"]
    ApplyYaml_remote [where h = lab_host and m = lab_machine and kubeconfig = "[]"
      and params = "\<lparr>Token = ''tok123'', Endpoint = ''https://down.example'', YamlPath = ''manifests''\<rparr>"
      and url = "''https://down.example/manifests/tok123.yaml''" and cache = "''chaos-delegate-manifest.yaml''"
      and err = "Failure ''dial tcp: no such host''"]
    ApplyYaml_remote [where h = lab_host and m = lab_machine and kubeconfig = "[]"
      and params = "\<lparr>Token = ''cut'', Endpoint = ''https://cc.example'', YamlPath = ''manifests''\<rparr>"
      and url = "''https://cc.example/manifests/cut.yaml''" and cache = "''chaos-delegate-manifest.yaml''"
      and resp = "\<lparr>statusCode = 200, body = Inl (Failure ''unexpected EOF'')\<rparr>"
      and err = "Failure ''unexpected EOF''"]
    ApplyYaml_remote [where h = lab_host and m = "lab_machine\<lparr>files := [''.readonly'' \<mapsto> []]\<rparr>" and kubeconfig = "[]"
      and params = "\<lparr>Token = ''tok123'', Endpoint = ''https://cc.example'', YamlPath = ''manifests''\<rparr>"
      and url = "''https://cc.example/manifests/tok123.yaml''" and cache = "''chaos-delegate-manifest.yaml''"
      and resp = "\<lparr>statusCode = 200, body = Inr ''kind: Deployment''\<rparr>" and B = "''kind: Deployment''"
      and err = "Failure ''open: read-only file system''" and fs = "[''.readonly'' \<mapsto> []]"]
  by (simp add: ApplyYaml_def Let_def lab_host_def lab_machine_def)

text \<open>
  C10. The status code of the response has no part in the result: changing it in every
  answer of the server changes nothing. Whenever the GET is answered and the body is read
  and written, the body is in the cache file and is applied, and what \<open>ApplyYaml\<close>
  returns is what applying it returns.
\<close>

theorem ApplyYaml_ignores_status:
  assumes "url = Endpoint params @ ''/'' @ YamlPath params @ ''/'' @ Token params @ ''.yaml''"
      and "cache = ''chaos-delegate-manifest.yaml''"
  shows
   "ApplyYaml (h\<lparr>Do := \<lambda>u. case Do h u of Inl e \<Rightarrow> Inl e | Inr r \<Rightarrow> Inr (r\<lparr>statusCode := code u\<rparr>)\<rparr>)
        params kubeconfig isLocal m =
    ApplyYaml h params kubeconfig isLocal m \<and>
    (NewRequest h url = None \<and> Do h url = Inr \<lparr>statusCode = c, body = Inr B\<rparr> \<and>
     WriteFile h cache B (files m) = None \<longrightarrow>
       files (snd (ApplyYaml h params kubeconfig False m)) cache = Some B \<and>
       commands (snd (ApplyYaml h params kubeconfig False m)) =
         commands m @ [[''kubectl'', ''apply'', ''-f'', cache] @
                       (if kubeconfig \<noteq> [] then [''--kubeconfig'', kubeconfig] else [])] \<and>
       fst (ApplyYaml h params kubeconfig False m) =
         fst (ApplyYaml h (params\<lparr>YamlPath := cache\<rparr>) kubeconfig True (m\<lparr>files := (files m)(cache \<mapsto> B)\<rparr>)))"
proof (intro conjI impI)
  show "ApplyYaml (h\<lparr>Do := \<lambda>u. case Do h u of Inl e \<Rightarrow> Inl e | Inr r \<Rightarrow> Inr (r\<lparr>statusCode := code u\<rparr>)\<rparr>)
        params kubeconfig isLocal m = ApplyYaml h params kubeconfig isLocal m"
    by (simp add: ApplyYaml_def Let_def split: option.splits sum.splits)
next
  assume a: "NewRequest h url = None \<and> Do h url = Inr \<lparr>statusCode = c, body = Inr B\<rparr> \<and>
     WriteFile h cache B (files m) = None"
  from a show "files (snd (ApplyYaml h params kubeconfig False m)) cache = Some B"
    unfolding assms by (simp add: ApplyYaml_def Let_def)
  from a show "commands (snd (ApplyYaml h params kubeconfig False m)) =
         commands m @ [[''kubectl'', ''apply'', ''-f'', cache] @
                       (if kubeconfig \<noteq> [] then [''--kubeconfig'', kubeconfig] else [])]"
    unfolding assms by (simp add: ApplyYaml_def Let_def)
  from a show "fst (ApplyYaml h params kubeconfig False m) =
         fst (ApplyYaml h (params\<lparr>YamlPath := cache\<rparr>) kubeconfig True (m\<lparr>files := (files m)(cache \<mapsto> B)\<rparr>))"
    unfolding assms by (simp add: ApplyYaml_def Let_def split: option.splits)
qed

theorem ApplyYaml_ignores_status_witness:
  "Do lab_host ''https://cc.example/manifests/gone.yaml'' = Inr \<lparr>statusCode = 404, body = Inr ''404 page not found''\<rparr> \<and>
   ApplyYaml lab_host \<lparr>Token = ''gone'', Endpoint = ''https://cc.example'', YamlPath = ''manifests''\<rparr> ''/k'' False lab_machine =
     (([], Some (ErrorString ''error: error parsing chaos-delegate-manifest.yaml: invalid manifest'')),
      lab_machine\<lparr>requests := [''https://cc.example/manifests/gone.yaml''],
                    files := (files lab_machine)(''chaos-delegate-manifest.yaml'' \<mapsto> ''404 page not found''),
                    commands := [[''kubectl'', ''apply'', ''-f'', ''chaos-delegate-manifest.yaml'', ''--kubeconfig'', ''/k'']]\<rparr>)"
  using
    ApplyYaml_ignores_status [where h = lab_host and m = lab_machine and kubeconfig = "''/k''"
      and params = "\<lparr>Token = ''gone'', Endpoint = ''https://cc.example'', YamlPath = ''manifests''\<rparr>"
      and url = "''https://cc.example/manifests/gone.yaml''" and cache = "''chaos-delegate-manifest.yaml''"
      and c = 404 and B = "''404 page not found''"]
  by (simp add: ApplyYaml_def Let_def lab_host_def lab_machine_def Errorf_def Sprintf_plain)

end
